theory Spec2Isabelle
  imports Complex_Main
begin

section \<open>Numbers and strings of the Python run time\<close>

text \<open>
  The balancer of \<^verbatim>\<open>sra_dispatch/balance_nodes.py\<close> computes with Python and NumPy
  floats. A float is modelled as a real or one of the three non-finite values. The
  addition of the overflow adjustment rounds as the binary format does; the other
  operations are exact. Strings are lists of ASCII characters.
\<close>

datatype npfloat = Fin real | PInf | NInf | NaN

text \<open>Multiplication of a float by a positive finite constant (\<^verbatim>\<open>x * 1024\<close>, \<^verbatim>\<open>x / 1024\<close>).\<close>

fun np_scale :: "real \<Rightarrow> npfloat \<Rightarrow> npfloat" where
  "np_scale c (Fin x) = Fin (x * c)"
| "np_scale c PInf = PInf"
| "np_scale c NInf = NInf"
| "np_scale c NaN = NaN"

text \<open>
  Addition of two floats (\<^verbatim>\<open>avg += 1000000000\<close>): the exact sum rounded to the nearest
  float of the binary64 format, ties to the even significand. The format has a
  significand of 53 bits and exponents from -1022 to 1023, with subnormal numbers below
  and infinity above. \<open>bit_length n\<close> is the number of binary digits of \<open>n\<close>, and
  \<open>exponent y\<close> the integer \<open>e\<close> with \<open>2\<^sup>e \<le> y < 2\<^sup>e\<^sup>+\<^sup>1\<close> for a positive \<open>y\<close>.
\<close>

function bit_length :: "int \<Rightarrow> int" where
  "bit_length n = (if n \<le> 0 then 0 else 1 + bit_length (n div 2))"
  by pat_completeness auto
termination
  by (relation "measure nat") auto

declare bit_length.simps [simp del]

definition exponent :: "real \<Rightarrow> int" where
  "exponent y =
     (if 1 \<le> y then bit_length \<lfloor>y\<rfloor> - 1
      else let k = bit_length \<lfloor>1 / y\<rfloor> - 1
           in if 1 / y = real_of_int (2 ^ nat k) then - k else - k - 1)"

definition pow2 :: "int \<Rightarrow> real" where
  "pow2 t = (if 0 \<le> t then real_of_int (2 ^ nat t) else 1 / real_of_int (2 ^ nat (- t)))"

text \<open>Rounding to the nearest integer, ties to the even one.\<close>

definition rne :: "real \<Rightarrow> int" where
  "rne r =
     (let f = \<lfloor>r\<rfloor>; d = r - real_of_int f
      in if d < 1 / 2 then f
         else if 1 / 2 < d then f + 1
         else if even f then f else f + 1)"

definition round64 :: "real \<Rightarrow> npfloat" where
  "round64 x =
     (if x = 0 then Fin 0
      else let t = max (exponent \<bar>x\<bar>) (- 1022) - 52;
               n = rne (\<bar>x\<bar> / pow2 t)
           in if 1024 \<le> bit_length n - 1 + t then (if 0 < x then PInf else NInf)
              else Fin (if 0 < x then real_of_int n * pow2 t
                        else - (real_of_int n * pow2 t)))"

fun np_add :: "npfloat \<Rightarrow> real \<Rightarrow> npfloat" where
  "np_add (Fin x) c = round64 (x + c)"
| "np_add PInf c = PInf"
| "np_add NInf c = NInf"
| "np_add NaN c = NaN"

text \<open>The comparison \<^verbatim>\<open>a < b\<close> of IEEE floats: false as soon as one side is NaN.\<close>

fun np_lt :: "npfloat \<Rightarrow> npfloat \<Rightarrow> bool" where
  "np_lt NaN b = False"
| "np_lt a NaN = False"
| "np_lt (Fin x) (Fin y) = (x < y)"
| "np_lt (Fin x) PInf = True"
| "np_lt (Fin x) NInf = False"
| "np_lt NInf (Fin y) = True"
| "np_lt NInf PInf = True"
| "np_lt NInf NInf = False"
| "np_lt PInf b = False"

definition np_gt :: "npfloat \<Rightarrow> npfloat \<Rightarrow> bool" where
  "np_gt a b = np_lt b a"

text \<open>
  True division of a NumPy scalar by a Python integer (\<^verbatim>\<open>df["disk_req"].sum() / nodes\<close>):
  dividing by zero does not raise, it gives an infinity or NaN.
\<close>

definition np_truediv :: "real \<Rightarrow> int \<Rightarrow> npfloat" where
  "np_truediv s n =
     (if n \<noteq> 0 then Fin (s / real_of_int n)
      else if 0 < s then PInf
      else if s < 0 then NInf
      else NaN)"

subsection \<open>Strings\<close>

text \<open>The ASCII characters \<^verbatim>\<open>str.strip()\<close> and \<^verbatim>\<open>float()\<close> treat as white space.\<close>

definition is_space :: "char \<Rightarrow> bool" where
  "is_space c = ((9 \<le> (of_char c :: int) \<and> (of_char c :: int) \<le> 13)
                 \<or> (28 \<le> (of_char c :: int) \<and> (of_char c :: int) \<le> 32))"

definition strip :: "string \<Rightarrow> string" where
  "strip s = rev (dropWhile is_space (rev (dropWhile is_space s)))"

text \<open>\<^verbatim>\<open>sub in s\<close> for strings.\<close>

fun contains :: "string \<Rightarrow> string \<Rightarrow> bool" where
  "contains sub [] = (sub = [])"
| "contains sub (c # cs) = (take (length sub) (c # cs) = sub \<or> contains sub cs)"

text \<open>
  \<^verbatim>\<open>s.replace(old, "")\<close> for a non-empty \<^verbatim>\<open>old\<close>: every occurrence, found from the left
  without overlap, is removed.
\<close>

function remove_all :: "string \<Rightarrow> string \<Rightarrow> string" where
  "remove_all old s =
     (if s = [] \<or> old = [] then s
      else if take (length old) s = old then remove_all old (drop (length old) s)
      else hd s # remove_all old (tl s))"
  by pat_completeness auto
termination
  by (relation "measure (\<lambda>(old, s). length s)") auto

declare remove_all.simps [simp del]

subsection \<open>The float parser\<close>

text \<open>
  \<^verbatim>\<open>float(s)\<close> follows the grammar of the language reference: white space around an
  optional sign and either \<^verbatim>\<open>inf\<close>, \<^verbatim>\<open>infinity\<close>, \<^verbatim>\<open>nan\<close> in any case or a decimal
  number, whose digit parts may group digits with single underscores, with an optional
  fraction and exponent. \<^verbatim>\<open>None\<close> is the \<^verbatim>\<open>ValueError\<close>.
\<close>

definition is_digit :: "char \<Rightarrow> bool" where
  "is_digit c = (48 \<le> (of_char c :: int) \<and> (of_char c :: int) \<le> 57)"

definition digit_val :: "char \<Rightarrow> int" where
  "digit_val c = of_char c - 48"

definition is_dch :: "char \<Rightarrow> bool" where
  "is_dch c = (is_digit c \<or> c = CHR ''_'')"

fun digitpart_ok :: "string \<Rightarrow> bool" where
  "digitpart_ok [] = False"
| "digitpart_ok [c] = is_digit c"
| "digitpart_ok (c # d # cs) =
     (is_digit c \<and> (if d = CHR ''_'' then digitpart_ok cs else digitpart_ok (d # cs)))"

definition digits_val :: "string \<Rightarrow> int" where
  "digits_val ds = foldl (\<lambda>a c. 10 * a + digit_val c) 0 (filter is_digit ds)"

definition to_lower :: "char \<Rightarrow> char" where
  "to_lower c =
     (if 65 \<le> (of_char c :: int) \<and> (of_char c :: int) \<le> 90
      then char_of ((of_char c :: int) + 32) else c)"

definition split_sign :: "string \<Rightarrow> bool \<times> string" where
  "split_sign t =
     (case t of
        [] \<Rightarrow> (False, [])
      | c # r \<Rightarrow> if c = CHR ''-'' then (True, r)
                 else if c = CHR ''+'' then (False, r)
                 else (False, t))"

definition float_number :: "string \<Rightarrow> real option" where
  "float_number u =
     (let ip = takeWhile is_dch u;
          r1 = dropWhile is_dch u;
          dot = (r1 \<noteq> [] \<and> hd r1 = CHR ''.'');
          r2 = (if dot then tl r1 else r1);
          fp = (if dot then takeWhile is_dch r2 else []);
          r3 = (if dot then dropWhile is_dch r2 else r2);
          mant_ok = (if ip = [] then dot \<and> digitpart_ok fp
                     else digitpart_ok ip \<and> (fp = [] \<or> digitpart_ok fp));
          mant = real_of_int (digits_val ip)
                 + real_of_int (digits_val fp) / 10 ^ length (filter is_digit fp)
      in if \<not> mant_ok then None
         else if r3 = [] then Some mant
         else if hd r3 = CHR ''e'' \<or> hd r3 = CHR ''E'' then
           (case split_sign (tl r3) of
              (eneg, ed) \<Rightarrow>
                if digitpart_ok ed
                then Some (if eneg then mant / 10 ^ nat (digits_val ed)
                           else mant * 10 ^ nat (digits_val ed))
                else None)
         else None)"

definition py_float :: "string \<Rightarrow> npfloat option" where
  "py_float s =
     (case split_sign (strip s) of
        (neg, u) \<Rightarrow>
          if map to_lower u = ''inf'' \<or> map to_lower u = ''infinity''
          then Some (if neg then NInf else PInf)
          else if map to_lower u = ''nan'' then Some NaN
          else map_option (\<lambda>m. Fin (if neg then - m else m)) (float_number u))"

section \<open>The size normaliser\<close>

datatype error = ValueError | ZeroDivisionError

text \<open>
  A cell of the \<^verbatim>\<open>run_1_size\<close> column: missing (\<^verbatim>\<open>None\<close>), a number or a string.
  \<^verbatim>\<open>pd.isna\<close> holds of a missing cell and of the float NaN.
\<close>

datatype cell = NA | Num npfloat | Str string

definition isna :: "cell \<Rightarrow> bool" where
  "isna c = (c = NA \<or> c = Num NaN)"

text \<open>
  \<^verbatim>\<open>convert_size\<close> (lines 51-67). The conversions inside the \<^verbatim>\<open>except\<close> branch are
  not guarded: their \<^verbatim>\<open>ValueError\<close> leaves the function. For a number, \<^verbatim>\<open>str\<close> followed
  by \<^verbatim>\<open>float\<close> gives the number back. The calls of the logger are not modelled.
\<close>

definition convert_size :: "cell \<Rightarrow> error + npfloat" where
  "convert_size size_str =
     (if isna size_str then Inr (Fin 0)
      else case size_str of
        Num x \<Rightarrow> Inr x
      | Str raw \<Rightarrow>
          (let s = strip raw in
           case py_float s of
             Some v \<Rightarrow> Inr v
           | None \<Rightarrow>
               if contains ''GB'' s then
                 (case py_float (remove_all ''GB'' s) of
                    None \<Rightarrow> Inl ValueError
                  | Some v \<Rightarrow> Inr (np_scale 1024 v))
               else if contains ''MB'' s then
                 (case py_float (remove_all ''MB'' s) of
                    None \<Rightarrow> Inl ValueError
                  | Some v \<Rightarrow> Inr v)
               else if contains ''KB'' s then
                 (case py_float (remove_all ''KB'' s) of
                    None \<Rightarrow> Inl ValueError
                  | Some v \<Rightarrow> Inr (np_scale (1 / 1024) v))
               else Inr (Fin 0))
      | NA \<Rightarrow> Inr (Fin 0))"

section \<open>The balancer\<close>

subsection \<open>The data\<close>

text \<open>
  The frame handed to \<^verbatim>\<open>balance_nodes\<close>, column by column; all columns of a frame have
  the same length. \<^verbatim>\<open>disk_req\<close> is \<^verbatim>\<open>None\<close> while the frame has no such column.
\<close>

record dataframe =
  run_1_accession :: "string list"
  run_1_size :: "cell list"
  disk_req :: "real list option"

text \<open>
  The entries of \<^verbatim>\<open>configs["process_configs"]\<close> the balancer reads or writes;
  \<^verbatim>\<open>disk_request\<close> is \<^verbatim>\<open>None\<close> while the key is absent. The balancer leaves every other
  entry of the dictionary as it is.
\<close>

record configs =
  max_cpu_request :: int
  cpu_per_node :: int
  disk_request :: "npfloat option"

text \<open>Floor division of Python integers.\<close>

definition py_floordiv :: "int \<Rightarrow> int \<Rightarrow> error + int" where
  "py_floordiv a b = (if b = 0 then Inl ZeroDivisionError else Inr (a div b))"

text \<open>\<^verbatim>\<open>Series.apply(convert_size)\<close>: the first exception leaves the call.\<close>

fun apply_convert :: "cell list \<Rightarrow> error + npfloat list" where
  "apply_convert [] = Inr []"
| "apply_convert (c # cs) =
     (case convert_size c of
        Inl e \<Rightarrow> Inl e
      | Inr v \<Rightarrow> (case apply_convert cs of Inl e \<Rightarrow> Inl e | Inr vs \<Rightarrow> Inr (v # vs)))"

text \<open>
  The sizes as reals. The arithmetic of the balancer on a column that holds an infinity
  or NaN is outside this model.
\<close>

fun finite_vals :: "npfloat list \<Rightarrow> real list option" where
  "finite_vals [] = Some []"
| "finite_vals (Fin x # vs) = map_option ((#) x) (finite_vals vs)"
| "finite_vals (v # vs) = None"

text \<open>\<^verbatim>\<open>Series.max()\<close>: NaN on an empty column.\<close>

fun series_max :: "real list \<Rightarrow> npfloat" where
  "series_max [] = NaN"
| "series_max (x # xs) = Fin (fold max xs x)"

text \<open>
  \<^verbatim>\<open>df.sort_values(by="disk_req", ascending=False)\<close> on the rows (accession, disk_req).
  Rows of equal weight keep their order here; pandas fixes no order for them.
\<close>

definition sort_values :: "(string \<times> real) list \<Rightarrow> (string \<times> real) list" where
  "sort_values rows = sort_key (\<lambda>r. - snd r) rows"

subsection \<open>The overflow adjustment (lines 85-90)\<close>

text \<open>
  \<^verbatim>\<open>while max_size_SRA > avg_disk_per_node: avg_disk_per_node += 1000000000\<close>.
  The loop does not end when the threshold is minus infinity, so its result is optional.
\<close>

partial_function (option) adjust :: "npfloat \<Rightarrow> npfloat \<Rightarrow> npfloat option" where
  "adjust max_size_SRA avg_disk_per_node =
     (if np_gt max_size_SRA avg_disk_per_node
      then adjust max_size_SRA (np_add avg_disk_per_node 1000000000)
      else Some avg_disk_per_node)"

declare adjust.simps [code]

subsection \<open>The partitioning loop (lines 102-144)\<close>

record pstate =
  df_sorted :: "(string \<times> real) list"
  group :: nat
  curr_group :: "string list"
  all_groups :: "string list"
  node_size :: real
  files :: "(string \<times> string list) list"

text \<open>\<^verbatim>\<open>str(n)\<close> of a natural number.\<close>

fun str_nat :: "nat \<Rightarrow> string" where
  "str_nat n =
     (if n < 10 then [char_of (48 + n)]
      else str_nat (n div 10) @ [char_of (48 + n mod 10)])"

declare str_nat.simps [simp del]

definition init_state :: "(string \<times> real) list \<Rightarrow> pstate" where
  "init_state rows =
     \<lparr>df_sorted = rows, group = 0, curr_group = [], all_groups = [], node_size = 0,
      files = []\<rparr>"

text \<open>Lines 125-128: the first row opens the group.\<close>

definition seed :: "pstate \<Rightarrow> pstate" where
  "seed s =
     s\<lparr>node_size := node_size s + snd (hd (df_sorted s)),
       curr_group := curr_group s @ [fst (hd (df_sorted s))],
       df_sorted := tl (df_sorted s)\<rparr>"

text \<open>
  Lines 131-134: the accession of the last row joins the group, the row is dropped, and
  then \<^verbatim>\<open>node_size += df_sorted["disk_req"].iloc[-1]\<close> reads the last row of what is left.
\<close>

definition accept :: "pstate \<Rightarrow> pstate" where
  "accept s =
     s\<lparr>curr_group := curr_group s @ [fst (last (df_sorted s))],
       df_sorted := butlast (df_sorted s),
       node_size := node_size s + snd (last (butlast (df_sorted s)))\<rparr>"

text \<open>
  Lines 136-143: the group is closed and written. A file is kept as the list of its
  lines; the source writes them joined by newlines.
\<close>

definition close_group :: "pstate \<Rightarrow> pstate" where
  "close_group s =
     s\<lparr>group := group s + 1,
       node_size := 0,
       files := files s @ [(''sras_to_process/SRA_set_'' @ str_nat (group s + 1), curr_group s)],
       all_groups := all_groups s @ [''sras_to_process/SRA_set_'' @ str_nat (group s + 1)],
       curr_group := []\<rparr>"

function partition_loop :: "npfloat \<Rightarrow> pstate \<Rightarrow> pstate" where
  "partition_loop avg s =
     (if length (df_sorted s) > 0 then
        (if length (df_sorted s) = 1 then s\<lparr>df_sorted := tl (df_sorted s)\<rparr>
         else if node_size s = 0 then partition_loop avg (seed s)
         else if np_lt (Fin (node_size s + snd (last (df_sorted s)))) avg
              then partition_loop avg (accept s)
         else partition_loop avg (close_group s))
      else s)"
  by pat_completeness auto
termination
  by (relation "measure (\<lambda>(avg, s). 2 * length (df_sorted s) + (if node_size s = 0 then 0 else 1))")
     (auto simp: seed_def accept_def close_group_def neq_Nil_conv)

declare partition_loop.simps [simp del]

subsection \<open>The whole call\<close>

text \<open>
  What the caller can observe after the call: its frame, the group files and the queue
  file under the freshly made folder, and the configuration file. The file system calls
  themselves are taken to succeed.
\<close>

record effects =
  df_after :: dataframe
  group_files :: "(string \<times> string list) list"
  sra_queue :: "string list option"
  submit_json :: "configs option"

datatype run = Finished "error + configs" effects | Diverges | Unmodelled

definition untouched :: "dataframe \<Rightarrow> effects" where
  "untouched df = \<lparr>df_after = df, group_files = [], sra_queue = None, submit_json = None\<rparr>"

text \<open>
  Line 76, \<^verbatim>\<open>df["disk_req"].sum() / nodes\<close>. The sum of an empty column is the Python
  integer 0, whose division by a node count of zero raises; the sum of a column with rows
  is a NumPy scalar, whose division by zero gives an infinity or NaN.
\<close>

definition sum_over_nodes :: "real list \<Rightarrow> int \<Rightarrow> error + npfloat" where
  "sum_over_nodes reqs n =
     (if reqs = [] \<and> n = 0 then Inl ZeroDivisionError
      else Inr (np_truediv (sum_list reqs) n))"

text \<open>
  Lines 42-96, up to the threshold: the node count, the converted sizes and
  \<^verbatim>\<open>avg_disk_per_node\<close> after the adjustment. An exception comes with the converted sizes
  when the columns of the frame had been assigned before it (lines 70 and 73).
\<close>

record prepared =
  p_nodes :: int
  p_sizes :: "real list"
  p_avg :: npfloat

datatype prep = Ready prepared | Raised error "real list option" | Looping | OutOfModel

definition prepare :: "dataframe \<Rightarrow> configs \<Rightarrow> prep" where
  "prepare df cfg =
     (case py_floordiv (max_cpu_request cfg) (cpu_per_node cfg) of
        Inl e \<Rightarrow> Raised e None
      | Inr n \<Rightarrow>
     (case apply_convert (run_1_size df) of
        Inl e \<Rightarrow> Raised e None
      | Inr vals \<Rightarrow>
     (case finite_vals vals of
        None \<Rightarrow> OutOfModel
      | Some sizes \<Rightarrow>
     (case sum_over_nodes (map (\<lambda>x. x * 20) sizes) n of
        Inl e \<Rightarrow> Raised e (Some sizes)
      | Inr avg0 \<Rightarrow>
     (case adjust (series_max (map (\<lambda>x. x * 20) sizes)) avg0 of
        None \<Rightarrow> Looping
      | Some avg \<Rightarrow> Ready \<lparr>p_nodes = n, p_sizes = sizes, p_avg = avg\<rparr>)))))"

text \<open>Lines 153-156: the CPU request, from the number of groups that were closed.\<close>

definition reallocate_cpu :: "int \<Rightarrow> nat \<Rightarrow> int \<Rightarrow> error + int" where
  "reallocate_cpu n n_groups cpu =
     (case py_floordiv n (int n_groups) of
        Inl e \<Rightarrow> Inl e
      | Inr q \<Rightarrow> Inr (if 2 \<le> q then 2 * cpu else cpu))"

text \<open>The caller's frame once lines 70 and 73 have assigned its columns.\<close>

definition assigned :: "dataframe \<Rightarrow> real list \<Rightarrow> dataframe" where
  "assigned df sizes =
     df\<lparr>run_1_size := map (\<lambda>x. Num (Fin x)) sizes,
        disk_req := Some (map (\<lambda>x. x * 20) sizes)\<rparr>"

text \<open>
  \<^verbatim>\<open>balance_nodes(df, configs)\<close>. An exception leaves the call with the effects made
  so far; an exception inside \<^verbatim>\<open>apply\<close> comes before the column is assigned.
\<close>

definition balance_nodes :: "dataframe \<Rightarrow> configs \<Rightarrow> run" where
  "balance_nodes df cfg =
     (case prepare df cfg of
        Raised e None \<Rightarrow> Finished (Inl e) (untouched df)
      | Raised e (Some sizes) \<Rightarrow> Finished (Inl e) (untouched (assigned df sizes))
      | Looping \<Rightarrow> Diverges
      | OutOfModel \<Rightarrow> Unmodelled
      | Ready p \<Rightarrow>
          (let df2 = df\<lparr>run_1_size := map (\<lambda>x. Num (Fin x)) (p_sizes p),
                       disk_req := Some (map (\<lambda>x. x * 20) (p_sizes p))\<rparr>;
               s = partition_loop (p_avg p)
                     (init_state (sort_values
                        (zip (run_1_accession df) (map (\<lambda>x. x * 20) (p_sizes p)))));
               fx = \<lparr>df_after = df2, group_files = files s,
                     sra_queue = Some (all_groups s), submit_json = None\<rparr>
           in case reallocate_cpu (p_nodes p) (length (all_groups s)) (cpu_per_node cfg) of
                Inl e \<Rightarrow> Finished (Inl e) fx
              | Inr cpu \<Rightarrow>
                  (let cfg' = cfg\<lparr>disk_request := Some (p_avg p), cpu_per_node := cpu\<rparr>
                   in Finished (Inr cfg') (fx\<lparr>submit_json := Some cfg'\<rparr>))))"

text \<open>The accessions written across all group files, for the conservation property.\<close>

fun output_ids :: "run \<Rightarrow> string list" where
  "output_ids (Finished r fx) = concat (map snd (group_files fx))"
| "output_ids Diverges = []"
| "output_ids Unmodelled = []"

subsection \<open>Example inputs\<close>

text \<open>
  The end-to-end scenario of the specification: the requirements 50, 40, 30 and 10 are
  twenty times the sizes 2.5, 2, 1.5 and 0.5. The other frames are used for single runs.
\<close>

abbreviation scenario_df :: dataframe where
  "scenario_df \<equiv>
     \<lparr>run_1_accession = [''A'', ''B'', ''C'', ''D''],
      run_1_size = [Str ''2.5'', Str ''2'', Str ''1.5'', Str ''0.5''],
      disk_req = None\<rparr>"

abbreviation scenario_cfg :: "int \<Rightarrow> int \<Rightarrow> configs" where
  "scenario_cfg m c \<equiv> \<lparr>max_cpu_request = m, cpu_per_node = c, disk_request = None\<rparr>"


abbreviation six_df :: dataframe where
  "six_df \<equiv>
     \<lparr>run_1_accession = [''A'', ''B'', ''C'', ''D'', ''E'', ''F''],
      run_1_size = [Str ''50000006'', Str ''50000005'', Str ''50000004'',
                    Str ''50000003'', Str ''50000002'', Str ''50000001''],
      disk_req = None\<rparr>"

section \<open>The size normaliser: what it returns\<close>





















section \<open>The overflow adjustment\<close>

text \<open>
  The rounding of \<^verbatim>\<open>+=\<close> leaves a sum of whole numbers below \<open>2\<^sup>5\<^sup>3\<close> exact.
\<close>

lemma bit_length_bound: "n < 2 ^ k \<Longrightarrow> bit_length n \<le> int k"
proof (induction k arbitrary: n)
  case 0
  then show ?case by (subst bit_length.simps) simp
next
  case (Suc k)
  show ?case
  proof (cases "n \<le> 0")
    case True
    then show ?thesis by (subst bit_length.simps) simp
  next
    case False
    from Suc.prems have "n div 2 < 2 ^ k" by simp
    then have "bit_length (n div 2) \<le> int k" by (rule Suc.IH)
    with False show ?thesis by (subst bit_length.simps) simp
  qed
qed

lemma bit_length_nonneg: "0 \<le> bit_length n"
  by (induction n rule: bit_length.induct) (subst bit_length.simps, simp)

lemma bit_length_pos: "0 < n \<Longrightarrow> 1 \<le> bit_length n"
  using bit_length_nonneg [of "n div 2"] by (subst bit_length.simps) simp

lemma rne_of_int: "rne (real_of_int n) = n"
  by (simp add: rne_def)

lemma round64_int:
  assumes "0 < i" and "i < 2 ^ 53"
  shows "round64 (real_of_int i) = Fin (real_of_int i)"
proof -
  define e where "e = bit_length i - 1"
  define c :: int where "c = 2 ^ nat (52 - e)"
  from assms(1) have e0: "0 \<le> e" using bit_length_pos [of i] by (simp add: e_def)
  from assms(2) have e52: "e \<le> 52" using bit_length_bound [of i 53] by (simp add: e_def)
  from assms(1) have ex: "exponent \<bar>real_of_int i\<bar> = e"
    by (simp add: exponent_def e_def)
  have c0: "0 < c" by (simp add: c_def)
  have p: "pow2 (e - 52) = 1 / real_of_int c"
  proof (cases "e = 52")
    case True
    then show ?thesis by (simp add: pow2_def c_def)
  next
    case False
    with e52 have "e - 52 < 0" by simp
    then have "pow2 (e - 52) = 1 / real_of_int (2 ^ nat (- (e - 52)))" by (simp add: pow2_def)
    then show ?thesis by (simp add: c_def)
  qed
  have t: "max e (- 1022) - 52 = e - 52" using e0 by simp
  have q: "\<bar>real_of_int i\<bar> / pow2 (e - 52) = real_of_int (i * c)"
    using assms(1) by (simp add: p)
  have n: "rne (\<bar>real_of_int i\<bar> / pow2 (e - 52)) = i * c"
    by (simp only: q rne_of_int)
  have "c \<le> 2 ^ 52"
  proof -
    have "(2::int) ^ nat (52 - e) \<le> 2 ^ 52" using e0 by (intro power_increasing) auto
    then show ?thesis by (simp add: c_def)
  qed
  with assms c0 have "i * c < 2 ^ 53 * 2 ^ 52"
    by (intro mult_less_le_imp_less) auto
  then have "i * c < 2 ^ 105" by simp
  then have "bit_length (i * c) \<le> 105" using bit_length_bound [of "i * c" 105] by simp
  with e52 have ov: "\<not> 1024 \<le> bit_length (i * c) - 1 + (e - 52)" by simp
  have val: "real_of_int (i * c) * pow2 (e - 52) = real_of_int i"
    using c0 by (simp add: p)
  from assms(1) have nz: "real_of_int i \<noteq> 0" and pos: "0 < real_of_int i" by simp_all
  show ?thesis
    unfolding round64_def Let_def ex t n
    using nz pos ov val by simp
qed

lemma np_add_whole:
  assumes "0 \<le> a" and "a + 1000000000 < 2 ^ 53"
  shows "np_add (Fin (real_of_int a)) 1000000000 = Fin (real_of_int a + 1000000000)"
proof -
  from assms(1) have "0 < a + 1000000000" by simp
  from round64_int [OF this assms(2)] show ?thesis by simp
qed

text \<open>
  What a result of the loop says: it is the threshold after some number \<open>k\<close> of passes,
  each of which found the largest requirement above the threshold, and the largest
  requirement is not above it.
\<close>

lemma adjust_result:
  assumes "adjust mx a = Some f"
  shows "\<exists>k. f = ((\<lambda>v. np_add v 1000000000) ^^ k) a
           \<and> (\<forall>j<k. np_gt mx (((\<lambda>v. np_add v 1000000000) ^^ j) a))
           \<and> \<not> np_gt mx f"
proof (rule adjust.raw_induct
    [where P = "\<lambda>m b r. \<exists>k. r = ((\<lambda>v. np_add v 1000000000) ^^ k) b
           \<and> (\<forall>j<k. np_gt m (((\<lambda>v. np_add v 1000000000) ^^ j) b))
           \<and> \<not> np_gt m r", OF _ assms])
  fix loop m b r
  assume IH: "\<And>m b r. loop m b = Some r \<Longrightarrow>
           \<exists>k. r = ((\<lambda>v. np_add v 1000000000) ^^ k) b
           \<and> (\<forall>j<k. np_gt m (((\<lambda>v. np_add v 1000000000) ^^ j) b))
           \<and> \<not> np_gt m r"
    and step: "(if np_gt m b then loop m (np_add b 1000000000) else Some b) = Some r"
  show "\<exists>k. r = ((\<lambda>v. np_add v 1000000000) ^^ k) b
           \<and> (\<forall>j<k. np_gt m (((\<lambda>v. np_add v 1000000000) ^^ j) b))
           \<and> \<not> np_gt m r"
  proof (cases "np_gt m b")
    case False
    with step have "r = b" by simp
    with False show ?thesis by (intro exI[of _ 0]) simp
  next
    case True
    with step have "loop m (np_add b 1000000000) = Some r" by simp
    from IH[OF this] obtain k where
      k: "r = ((\<lambda>v. np_add v 1000000000) ^^ k) (np_add b 1000000000)"
         "\<forall>j<k. np_gt m (((\<lambda>v. np_add v 1000000000) ^^ j) (np_add b 1000000000))"
         "\<not> np_gt m r"
      by blast
    have sw: "((\<lambda>v. np_add v 1000000000) ^^ Suc n) b
              = ((\<lambda>v. np_add v 1000000000) ^^ n) (np_add b 1000000000)" for n
      by (simp only: funpow_Suc_right o_apply)
    have "\<forall>j<Suc k. np_gt m (((\<lambda>v. np_add v 1000000000) ^^ j) b)"
    proof (intro allI impI)
      fix j assume "j < Suc k"
      show "np_gt m (((\<lambda>v. np_add v 1000000000) ^^ j) b)"
      proof (cases j)
        case 0 with True show ?thesis by simp
      next
        case (Suc i)
        with \<open>j < Suc k\<close> have "i < k" by simp
        with k(2) have "np_gt m (((\<lambda>v. np_add v 1000000000) ^^ i) (np_add b 1000000000))"
          by blast
        with Suc show ?thesis by (simp only: sw)
      qed
    qed
    with k(1,3) show ?thesis
      by (intro exI[of _ "Suc k"]) (simp only: sw, simp)
  qed
qed

text \<open>A threshold that the increment no longer changes, below the largest requirement.\<close>

lemma adjust_stuck:
  assumes "np_add a 1000000000 = a" and "np_gt mx a"
  shows "adjust mx a = None"
proof (cases "adjust mx a")
  case None
  then show ?thesis .
next
  case (Some f)
  have "\<not> (mx = mx \<and> a = a)"
  proof (rule adjust.raw_induct [where P = "\<lambda>m b r. \<not> (m = mx \<and> b = a)", OF _ Some])
    fix loop m b r
    assume IH: "\<And>m b r. loop m b = Some r \<Longrightarrow> \<not> (m = mx \<and> b = a)"
      and step: "(if np_gt m b then loop m (np_add b 1000000000) else Some b) = Some r"
    show "\<not> (m = mx \<and> b = a)"
    proof
      assume "m = mx \<and> b = a"
      with step assms have "loop mx a = Some r" by simp
      from IH[OF this] show False by simp
    qed
  qed
  then show ?thesis by simp
qed

lemma exit_covers_items:
  assumes "\<not> np_gt (series_max ds) f" and "d \<in> set ds"
  shows "\<not> np_lt f (Fin d)"
proof (cases ds)
  case Nil
  with assms(2) show ?thesis by simp
next
  case (Cons x xs)
  have m: "fold max xs x = Max (set ds)" using Max.set_eq_fold [of x xs] Cons by simp
  from assms(2) have le: "d \<le> Max (set ds)" by simp
  show ?thesis
  proof (cases f)
    case (Fin y)
    with assms(1) Cons m have "\<not> y < Max (set ds)" by (simp add: np_gt_def)
    with le Fin show ?thesis by simp
  next
    case PInf
    then show ?thesis by simp
  next
    case NInf
    with assms(1) Cons show ?thesis by (simp add: np_gt_def)
  next
    case NaN
    then show ?thesis by simp
  qed
qed

text \<open>
  C5, as stated: every pass adds 1024 (one GB counted in MB). At the requirements 50 and
  10 on two nodes the threshold 30 is raised once, and by 1000000000, not by 1024.
\<close>

theorem overflow_increment_is_not_1024:
  "adjust (series_max [50, 10]) (np_truediv (sum_list [50, 10]) 2) = Some (Fin 1000000030)
   \<and> (1000000030::real) \<noteq> 30 + 1024"
  by code_simp

text \<open>
  C5, amended: each pass replaces the threshold by the float sum of the threshold and
  1000000000; the loop makes a pass exactly while the largest requirement exceeds the
  threshold, and when it ends no requirement exceeds the threshold. The sum is exactly
  1000000000 more for a threshold that is a whole number, as long as the sum stays below
  \<open>2\<^sup>5\<^sup>3\<close>.
\<close>

theorem overflow_adjustment_passes:
  "(adjust (series_max ds) avg0 = Some f \<longrightarrow>
      (\<exists>k. f = ((\<lambda>v. np_add v 1000000000) ^^ k) avg0
         \<and> (\<forall>j<k. np_gt (series_max ds) (((\<lambda>v. np_add v 1000000000) ^^ j) avg0))
         \<and> \<not> np_gt (series_max ds) f
         \<and> (\<forall>d\<in>set ds. \<not> np_lt f (Fin d))))
   \<and> (0 \<le> a \<and> a + 1000000000 < 2 ^ 53 \<longrightarrow>
        np_add (Fin (real_of_int a)) 1000000000 = Fin (real_of_int a + 1000000000))"
proof (intro conjI impI)
  assume "adjust (series_max ds) avg0 = Some f"
  from adjust_result [OF this] obtain k where
    k: "f = ((\<lambda>v. np_add v 1000000000) ^^ k) avg0"
       "\<forall>j<k. np_gt (series_max ds) (((\<lambda>v. np_add v 1000000000) ^^ j) avg0)"
       "\<not> np_gt (series_max ds) f"
    by blast
  have "\<forall>d\<in>set ds. \<not> np_lt f (Fin d)" using exit_covers_items [OF k(3)] by blast
  with k show "\<exists>k. f = ((\<lambda>v. np_add v 1000000000) ^^ k) avg0
         \<and> (\<forall>j<k. np_gt (series_max ds) (((\<lambda>v. np_add v 1000000000) ^^ j) avg0))
         \<and> \<not> np_gt (series_max ds) f
         \<and> (\<forall>d\<in>set ds. \<not> np_lt f (Fin d))"
    by blast
next
  assume "0 \<le> a \<and> a + 1000000000 < 2 ^ 53"
  then have "0 \<le> a" and "a + 1000000000 < 2 ^ 53" by simp_all
  then show "np_add (Fin (real_of_int a)) 1000000000 = Fin (real_of_int a + 1000000000)"
    by (rule np_add_whole)
qed

text \<open>
  The amended C5 at the requirements 50 and 10 on two nodes, and at the threshold 30.
\<close>

theorem overflow_adjustment_passes_witness:
  "adjust (series_max [50, 10]) (np_truediv (sum_list [50, 10]) 2) = Some (Fin 1000000030)
   \<and> (\<exists>k. Fin 1000000030
             = ((\<lambda>v. np_add v 1000000000) ^^ k) (np_truediv (sum_list [50, 10]) 2)
         \<and> (\<forall>j<k. np_gt (series_max [50, 10])
                (((\<lambda>v. np_add v 1000000000) ^^ j) (np_truediv (sum_list [50, 10]) 2)))
         \<and> \<not> np_gt (series_max [50, 10]) (Fin 1000000030)
         \<and> (\<forall>d\<in>set [50, 10]. \<not> np_lt (Fin 1000000030) (Fin d)))
   \<and> np_add (Fin (real_of_int 30)) 1000000000 = Fin (real_of_int 30 + 1000000000)"
proof -
  have run: "adjust (series_max [50, 10]) (np_truediv (sum_list [50, 10]) 2)
             = Some (Fin 1000000030)"
    by code_simp
  have whole: "(0::int) \<le> 30 \<and> (30::int) + 1000000000 < 2 ^ 53" by simp
  from overflow_adjustment_passes
         [of "[50, 10]" "np_truediv (sum_list [50, 10]) 2" "Fin 1000000030" 30] run whole
  show ?thesis by blast
qed

section \<open>The conversions and the partitioning loop\<close>

lemma convert_size_error: "convert_size c = Inl e \<Longrightarrow> e = ValueError"
  by (cases e) (auto simp: convert_size_def Let_def split: if_splits cell.splits option.splits)

lemma apply_convert_error: "apply_convert cs = Inl e \<Longrightarrow> e = ValueError"
  by (induction cs) (auto split: sum.splits dest: convert_size_error)


lemma finite_vals_map: "finite_vals vs = Some xs \<Longrightarrow> vs = map Fin xs"
proof (induction vs arbitrary: xs)
  case Nil
  then show ?case by simp
next
  case (Cons v vs)
  then show ?case by (cases v) auto
qed

lemma partition_loop_files:
  "map fst (files s) = all_groups s \<Longrightarrow>
   map fst (files (partition_loop avg s)) = all_groups (partition_loop avg s)"
proof (induction avg s rule: partition_loop.induct)
  case (1 avg s)
  show ?case
    using 1
    by (subst (1 2) partition_loop.simps)
       (auto simp: seed_def accept_def close_group_def)
qed


lemma py_floordiv_floor:
  "b \<noteq> 0 \<Longrightarrow> py_floordiv a b = Inr \<lfloor>real_of_int a / real_of_int b\<rfloor>"
  by (simp add: py_floordiv_def floor_divide_of_int_eq)

section \<open>The whole call\<close>

lemma prepare_ready:
  assumes "prepare df cfg = Ready p"
  shows "cpu_per_node cfg \<noteq> 0"
    and "p_nodes p = max_cpu_request cfg div cpu_per_node cfg"
    and "apply_convert (run_1_size df) = Inr (map Fin (p_sizes p))"
    and "adjust (series_max (map (\<lambda>x. x * 20) (p_sizes p)))
           (np_truediv (sum_list (map (\<lambda>x. x * 20) (p_sizes p))) (p_nodes p)) = Some (p_avg p)"
    and "p_sizes p \<noteq> [] \<or> p_nodes p \<noteq> 0"
  using assms
  by (auto simp: prepare_def py_floordiv_def sum_over_nodes_def
           split: sum.splits option.splits if_splits dest: finite_vals_map)

lemma apply_convert_Nil:
  "apply_convert cs = Inr vs \<Longrightarrow> finite_vals vs = Some [] \<Longrightarrow> cs = []"
proof -
  assume a: "apply_convert cs = Inr vs" and "finite_vals vs = Some []"
  then have "vs = []" by (auto dest: finite_vals_map)
  with a show ?thesis by (cases cs) (auto split: sum.splits)
qed

lemma prepare_raised:
  assumes "prepare df cfg = Raised e st"
  shows "(cpu_per_node cfg = 0 \<and> e = ZeroDivisionError \<and> st = None)
         \<or> (cpu_per_node cfg \<noteq> 0 \<and> e = ValueError \<and> st = None)
         \<or> (cpu_per_node cfg \<noteq> 0 \<and> e = ZeroDivisionError \<and> st = Some []
              \<and> run_1_size df = [] \<and> max_cpu_request cfg div cpu_per_node cfg = 0)"
  using assms
  by (auto simp: prepare_def py_floordiv_def sum_over_nodes_def
           split: sum.splits option.splits if_splits
           dest: apply_convert_error apply_convert_Nil)

lemma balance_nodes_zero_division:
  assumes "balance_nodes df cfg = Finished (Inl ZeroDivisionError) fx"
      and "cpu_per_node cfg \<noteq> 0"
  shows "(run_1_size df = [] \<and> max_cpu_request cfg div cpu_per_node cfg = 0
            \<and> fx = untouched (assigned df []))
         \<or> (sra_queue fx = Some []
            \<and> (\<exists>sizes. run_1_size (df_after fx) = map (\<lambda>x. Num (Fin x)) sizes))"
proof (cases "prepare df cfg")
  case (Ready p)
  with assms(1) show ?thesis
    by (auto simp: balance_nodes_def reallocate_cpu_def py_floordiv_def Let_def
             split: sum.splits if_splits)
next
  case (Raised e st)
  from prepare_raised [OF this] assms Raised show ?thesis
    by (auto simp: balance_nodes_def)
next
  case Looping
  with assms(1) show ?thesis by (simp add: balance_nodes_def)
next
  case OutOfModel
  with assms(1) show ?thesis by (simp add: balance_nodes_def)
qed

lemma empty_frame_no_nodes:
  assumes "cpu_per_node cfg \<noteq> 0" and "run_1_size df = []"
      and "max_cpu_request cfg div cpu_per_node cfg = 0"
  shows "balance_nodes df cfg = Finished (Inl ZeroDivisionError) (untouched (assigned df []))"
  using assms
  by (simp add: balance_nodes_def prepare_def py_floordiv_def sum_over_nodes_def)

lemma balance_nodes_returns:
  assumes "balance_nodes df cfg = Finished (Inr cfg') fx"
  obtains p cpu where
    "prepare df cfg = Ready p"
    "reallocate_cpu (p_nodes p)
       (length (all_groups (partition_loop (p_avg p) (init_state (sort_values
          (zip (run_1_accession df) (map (\<lambda>x. x * 20) (p_sizes p))))))))
       (cpu_per_node cfg) = Inr cpu"
    "cfg' = cfg\<lparr>disk_request := Some (p_avg p), cpu_per_node := cpu\<rparr>"
    "fx = \<lparr>df_after = df\<lparr>run_1_size := map (\<lambda>x. Num (Fin x)) (p_sizes p),
                            disk_req := Some (map (\<lambda>x. x * 20) (p_sizes p))\<rparr>,
           group_files = files (partition_loop (p_avg p) (init_state (sort_values
             (zip (run_1_accession df) (map (\<lambda>x. x * 20) (p_sizes p)))))),
           sra_queue = Some (all_groups (partition_loop (p_avg p) (init_state (sort_values
             (zip (run_1_accession df) (map (\<lambda>x. x * 20) (p_sizes p))))))),
           submit_json = Some cfg'\<rparr>"
  using assms
  by (auto simp: balance_nodes_def Let_def split: prep.splits sum.splits option.splits)

text \<open>
  C7: when the call returns, at least one group was closed, the queue lists as many
  groups as there are group files, and the returned \<^verbatim>\<open>cpu_per_node\<close> is twice the base value
  exactly when the node count floor-divided by the group count is at least 2, the base
  value otherwise; ten nodes at the base 4 give 8 for four groups and 4 for six.
\<close>

theorem cpu_reallocation_rule:
  "(balance_nodes df cfg = Finished (Inr cfg') fx \<longrightarrow>
      (\<exists>groups. sra_queue fx = Some groups \<and> groups \<noteq> []
         \<and> length (group_files fx) = length groups
         \<and> cpu_per_node cfg' =
             (if 2 \<le> (max_cpu_request cfg div cpu_per_node cfg) div int (length groups)
              then 2 * cpu_per_node cfg else cpu_per_node cfg)
         \<and> (cpu_per_node cfg' = 2 * cpu_per_node cfg
              \<longleftrightarrow> 2 \<le> (max_cpu_request cfg div cpu_per_node cfg) div int (length groups))))
   \<and> reallocate_cpu 10 4 4 = Inr 8
   \<and> reallocate_cpu 10 6 4 = Inr 4"
proof (intro conjI impI)
  assume run: "balance_nodes df cfg = Finished (Inr cfg') fx"
  from run obtain p cpu where
    prep: "prepare df cfg = Ready p"
    and re: "reallocate_cpu (p_nodes p)
       (length (all_groups (partition_loop (p_avg p) (init_state (sort_values
          (zip (run_1_accession df) (map (\<lambda>x. x * 20) (p_sizes p))))))))
       (cpu_per_node cfg) = Inr cpu"
    and cfg': "cfg' = cfg\<lparr>disk_request := Some (p_avg p), cpu_per_node := cpu\<rparr>"
    and fx: "fx = \<lparr>df_after = df\<lparr>run_1_size := map (\<lambda>x. Num (Fin x)) (p_sizes p),
                            disk_req := Some (map (\<lambda>x. x * 20) (p_sizes p))\<rparr>,
           group_files = files (partition_loop (p_avg p) (init_state (sort_values
             (zip (run_1_accession df) (map (\<lambda>x. x * 20) (p_sizes p)))))),
           sra_queue = Some (all_groups (partition_loop (p_avg p) (init_state (sort_values
             (zip (run_1_accession df) (map (\<lambda>x. x * 20) (p_sizes p))))))),
           submit_json = Some cfg'\<rparr>"
    by (rule balance_nodes_returns)
  let ?s = "partition_loop (p_avg p) (init_state (sort_values
             (zip (run_1_accession df) (map (\<lambda>x. x * 20) (p_sizes p)))))"
  from prep have base: "cpu_per_node cfg \<noteq> 0"
    and n: "p_nodes p = max_cpu_request cfg div cpu_per_node cfg"
    by (rule prepare_ready)+
  have "map fst (files ?s) = all_groups ?s"
    by (rule partition_loop_files) (simp add: init_state_def)
  then have len: "length (files ?s) = length (all_groups ?s)"
    by (metis length_map)
  from re have ne: "all_groups ?s \<noteq> []"
    by (auto simp: reallocate_cpu_def py_floordiv_def split: if_splits)
  from re ne n have cpu: "cpu =
      (if 2 \<le> (max_cpu_request cfg div cpu_per_node cfg) div int (length (all_groups ?s))
       then 2 * cpu_per_node cfg else cpu_per_node cfg)"
    by (auto simp: reallocate_cpu_def py_floordiv_def split: if_splits)
  show "\<exists>groups. sra_queue fx = Some groups \<and> groups \<noteq> []
         \<and> length (group_files fx) = length groups
         \<and> cpu_per_node cfg' =
             (if 2 \<le> (max_cpu_request cfg div cpu_per_node cfg) div int (length groups)
              then 2 * cpu_per_node cfg else cpu_per_node cfg)
         \<and> (cpu_per_node cfg' = 2 * cpu_per_node cfg
              \<longleftrightarrow> 2 \<le> (max_cpu_request cfg div cpu_per_node cfg) div int (length groups))"
    using ne len cpu base by (intro exI[of _ "all_groups ?s"]) (simp add: fx cfg')
next
  show "reallocate_cpu 10 4 4 = Inr 8"
    by (simp add: reallocate_cpu_def py_floordiv_def)
next
  show "reallocate_cpu 10 6 4 = Inr 4"
    by (simp add: reallocate_cpu_def py_floordiv_def)
qed

text \<open>
  C4, amended: the node count is the floor of the quotient, and no check of it follows.
  The call fails before any other work only when \<^verbatim>\<open>cpu_per_node\<close> is zero, with the
  \<^verbatim>\<open>ZeroDivisionError\<close> of that division. For a non-zero \<^verbatim>\<open>cpu_per_node\<close> a
  \<^verbatim>\<open>ZeroDivisionError\<close> arises at line 76 for the empty frame with a node count of zero,
  once the columns of the caller's frame are assigned and before any file is written, and
  otherwise only at the CPU reallocation, after the sizes were converted in the caller's
  frame and the queue file was written.
\<close>

theorem node_budget_check:
  "(cpu_per_node cfg = 0 \<longrightarrow>
      balance_nodes df cfg = Finished (Inl ZeroDivisionError) (untouched df))
   \<and> (cpu_per_node cfg \<noteq> 0 \<longrightarrow>
        py_floordiv (max_cpu_request cfg) (cpu_per_node cfg)
          = Inr \<lfloor>real_of_int (max_cpu_request cfg) / real_of_int (cpu_per_node cfg)\<rfloor>
        \<and> (\<forall>fx. balance_nodes df cfg = Finished (Inl ZeroDivisionError) fx \<longrightarrow>
               (run_1_size df = [] \<and> max_cpu_request cfg div cpu_per_node cfg = 0
                  \<and> fx = untouched (assigned df []))
               \<or> (sra_queue fx = Some []
                  \<and> (\<exists>sizes. run_1_size (df_after fx) = map (\<lambda>x. Num (Fin x)) sizes)))
        \<and> (run_1_size df = [] \<and> max_cpu_request cfg div cpu_per_node cfg = 0 \<longrightarrow>
               balance_nodes df cfg
                 = Finished (Inl ZeroDivisionError) (untouched (assigned df []))))"
proof (intro conjI impI allI)
  assume "cpu_per_node cfg = 0"
  then show "balance_nodes df cfg = Finished (Inl ZeroDivisionError) (untouched df)"
    by (simp add: balance_nodes_def prepare_def py_floordiv_def)
next
  assume "cpu_per_node cfg \<noteq> 0"
  then show "py_floordiv (max_cpu_request cfg) (cpu_per_node cfg)
          = Inr \<lfloor>real_of_int (max_cpu_request cfg) / real_of_int (cpu_per_node cfg)\<rfloor>"
    by (rule py_floordiv_floor)
next
  fix fx
  assume "cpu_per_node cfg \<noteq> 0" "balance_nodes df cfg = Finished (Inl ZeroDivisionError) fx"
  then show "(run_1_size df = [] \<and> max_cpu_request cfg div cpu_per_node cfg = 0
                  \<and> fx = untouched (assigned df []))
               \<or> (sra_queue fx = Some []
                  \<and> (\<exists>sizes. run_1_size (df_after fx) = map (\<lambda>x. Num (Fin x)) sizes))"
    by (rule balance_nodes_zero_division [rotated])
next
  assume "cpu_per_node cfg \<noteq> 0"
    and "run_1_size df = [] \<and> max_cpu_request cfg div cpu_per_node cfg = 0"
  then show "balance_nodes df cfg
                 = Finished (Inl ZeroDivisionError) (untouched (assigned df []))"
    by (simp add: empty_frame_no_nodes)
qed



section \<open>Single runs\<close>

lemma scenario_run:
  "balance_nodes scenario_df (scenario_cfg 8 4) =
   Finished
     (Inr \<lparr>max_cpu_request = 8, cpu_per_node = 8, disk_request = Some (Fin 65)\<rparr>)
     \<lparr>df_after =
        \<lparr>run_1_accession = [''A'', ''B'', ''C'', ''D''],
         run_1_size = [Num (Fin (5 / 2)), Num (Fin 2), Num (Fin (3 / 2)), Num (Fin (1 / 2))],
         disk_req = Some [50, 40, 30, 10]\<rparr>,
      group_files = [(''sras_to_process/SRA_set_1'', [''A'', ''D''])],
      sra_queue = Some [''sras_to_process/SRA_set_1''],
      submit_json =
        Some \<lparr>max_cpu_request = 8, cpu_per_node = 8, disk_request = Some (Fin 65)\<rparr>\<rparr>"
  by code_simp

lemma zero_nodes_run:
  "balance_nodes scenario_df (scenario_cfg 2 4) =
   Finished (Inl ZeroDivisionError)
     \<lparr>df_after =
        \<lparr>run_1_accession = [''A'', ''B'', ''C'', ''D''],
         run_1_size = [Num (Fin (5 / 2)), Num (Fin 2), Num (Fin (3 / 2)), Num (Fin (1 / 2))],
         disk_req = Some [50, 40, 30, 10]\<rparr>,
      group_files = [], sra_queue = Some [], submit_json = None\<rparr>"
  by code_simp

lemma six_run:
  "balance_nodes six_df (scenario_cfg 40 4) =
   Finished
     (Inr \<lparr>max_cpu_request = 40, cpu_per_node = 8,
           disk_request = Some (Fin 1600000042)\<rparr>)
     \<lparr>df_after =
        \<lparr>run_1_accession = [''A'', ''B'', ''C'', ''D'', ''E'', ''F''],
         run_1_size =
           [Num (Fin 50000006), Num (Fin 50000005), Num (Fin 50000004),
            Num (Fin 50000003), Num (Fin 50000002), Num (Fin 50000001)],
         disk_req =
           Some [1000000120, 1000000100, 1000000080, 1000000060, 1000000040,
                 1000000020]\<rparr>,
      group_files =
        [(''sras_to_process/SRA_set_1'', [''A'']),
         (''sras_to_process/SRA_set_2'', [''B'']),
         (''sras_to_process/SRA_set_3'', [''C'']),
         (''sras_to_process/SRA_set_4'', [''D''])],
      sra_queue =
        Some [''sras_to_process/SRA_set_1'', ''sras_to_process/SRA_set_2'',
              ''sras_to_process/SRA_set_3'', ''sras_to_process/SRA_set_4''],
      submit_json =
        Some \<lparr>max_cpu_request = 40, cpu_per_node = 8,
              disk_request = Some (Fin 1600000042)\<rparr>\<rparr>"
  by code_simp

text \<open>
  C1 on the scenario of the specification: only A and D are written; B, left in the
  open group, and C, the last row, are in no group file.
\<close>

theorem scenario_drops_items:
  "output_ids (balance_nodes scenario_df (scenario_cfg 8 4)) = [''A'', ''D'']
   \<and> ''B'' \<in> set (run_1_accession scenario_df)
   \<and> ''B'' \<notin> set (output_ids (balance_nodes scenario_df (scenario_cfg 8 4)))
   \<and> ''C'' \<in> set (run_1_accession scenario_df)
   \<and> ''C'' \<notin> set (output_ids (balance_nodes scenario_df (scenario_cfg 8 4)))"
  by (simp add: scenario_run)

text \<open>
  C3 at a string with a unit marker whose remainder is no number: the conversion raises
  \<^verbatim>\<open>ValueError\<close>, and one such cell aborts the whole call.
\<close>

theorem unit_marker_with_bad_number_raises:
  "convert_size (Str ''xGB'') = Inl ValueError
   \<and> convert_size (Str ''1,5GB'') = Inl ValueError
   \<and> balance_nodes
        \<lparr>run_1_accession = [''A'', ''B''], run_1_size = [Str ''2.5'', Str ''xGB''],
         disk_req = None\<rparr>
        (scenario_cfg 8 4)
      = Finished (Inl ValueError)
          (untouched \<lparr>run_1_accession = [''A'', ''B''],
                      run_1_size = [Str ''2.5'', Str ''xGB''], disk_req = None\<rparr>)"
  by code_simp

text \<open>
  C8 on the scenario of the specification: after the seed A (50) the row D (10) is
  accepted since 50 + 10 < 65, but \<^verbatim>\<open>node_size\<close> becomes 80: the weight added is that of C
  (30), the last row after D was dropped. The loop passes through this state.
\<close>

theorem accepted_weight_is_miscounted:
  "node_size (seed (init_state [(''A'', 50), (''B'', 40), (''C'', 30), (''D'', 10)])) = 50
   \<and> np_lt (Fin (50 + 10)) (Fin 65)
   \<and> accept (seed (init_state [(''A'', 50), (''B'', 40), (''C'', 30), (''D'', 10)]))
       = \<lparr>df_sorted = [(''B'', 40), (''C'', 30)], group = 0, curr_group = [''A'', ''D''],
          all_groups = [], node_size = 80, files = []\<rparr>
   \<and> partition_loop (Fin 65)
         (init_state [(''A'', 50), (''B'', 40), (''C'', 30), (''D'', 10)])
       = partition_loop (Fin 65)
           (accept (seed (init_state [(''A'', 50), (''B'', 40), (''C'', 30), (''D'', 10)])))
   \<and> (80::real) \<noteq> 50 + 10 \<and> \<not> (80::real) < 65"
proof -
  let ?i = "init_state [(''A'', 50), (''B'', 40), (''C'', 30), (''D'', 10)]"
  have s: "seed ?i = \<lparr>df_sorted = [(''B'', 40), (''C'', 30), (''D'', 10)], group = 0,
                       curr_group = [''A''], all_groups = [], node_size = 50, files = []\<rparr>"
    by (simp add: seed_def init_state_def)
  have a: "accept (seed ?i) = \<lparr>df_sorted = [(''B'', 40), (''C'', 30)], group = 0,
             curr_group = [''A'', ''D''], all_groups = [], node_size = 80, files = []\<rparr>"
    by (simp add: s accept_def)
  have l1: "partition_loop (Fin 65) ?i = partition_loop (Fin 65) (seed ?i)"
    by (subst partition_loop.simps) (simp add: init_state_def)
  have l2: "partition_loop (Fin 65) (seed ?i) = partition_loop (Fin 65) (accept (seed ?i))"
    by (subst partition_loop.simps) (simp add: s)
  from s a l1 l2 show ?thesis by simp
qed

text \<open>
  C6 at the sizes 1e25 and 1 on two nodes: the requirements are 2e26 and 20 and the
  threshold starts near 1e26, where neighbouring floats are \<open>2\<^sup>3\<^sup>4\<close> apart. The first pass
  rounds the threshold to a float, every later sum with 1000000000 rounds back to that
  float, and the largest requirement stays above it: the loop never ends.
\<close>

theorem absorbed_increment_never_ends:
  "balance_nodes
     \<lparr>run_1_accession = [''A'', ''B''], run_1_size = [Str ''1e25'', Str ''1''],
      disk_req = None\<rparr>
     (scenario_cfg 8 4) = Diverges
   \<and> np_add (Fin 100000000000000004764729344) 1000000000 = Fin 100000000000000004764729344
   \<and> np_gt (Fin 200000000000000000000000000) (Fin 100000000000000004764729344)"
proof -
  have conv: "apply_convert [Str ''1e25'', Str ''1'']
              = Inr [Fin 10000000000000000000000000, Fin 1]"
    by code_simp
  have first: "np_add (Fin 100000000000000000000000010) 1000000000
               = Fin 100000000000000004764729344"
    by code_simp
  have stay: "np_add (Fin 100000000000000004764729344) 1000000000
              = Fin 100000000000000004764729344"
    by code_simp
  have gt: "np_gt (Fin 200000000000000000000000000) (Fin 100000000000000004764729344)"
    by (simp add: np_gt_def)
  have "adjust (Fin 200000000000000000000000000) (Fin 100000000000000004764729344) = None"
    using stay gt by (rule adjust_stuck)
  moreover have gt1: "np_gt (Fin 200000000000000000000000000) (Fin 100000000000000000000000010)"
    by (simp add: np_gt_def)
  have "adjust (Fin 200000000000000000000000000) (Fin 100000000000000000000000010)
        = adjust (Fin 200000000000000000000000000)
            (np_add (Fin 100000000000000000000000010) 1000000000)"
    by (subst adjust.simps) (simp only: gt1 if_True)
  ultimately have loop:
    "adjust (Fin 200000000000000000000000000) (Fin 100000000000000000000000010) = None"
    by (simp only: first)
  have "prepare
     \<lparr>run_1_accession = [''A'', ''B''], run_1_size = [Str ''1e25'', Str ''1''],
      disk_req = None\<rparr>
     (scenario_cfg 8 4) = Looping"
    by (simp add: prepare_def py_floordiv_def conv sum_over_nodes_def np_truediv_def loop
             del: apply_convert.simps)
  then show ?thesis using stay gt by (simp add: balance_nodes_def)
qed

text \<open>
  C4, as stated: a node count below one fails before any partitioning work. With
  \<^verbatim>\<open>max_cpu_request = 2\<close> and \<^verbatim>\<open>cpu_per_node = 4\<close> the node count is 0, and the call converts
  the sizes in the caller's frame, partitions, writes the queue file and raises only then.
\<close>

theorem zero_nodes_not_rejected_up_front:
  "py_floordiv 2 4 = Inr 0
   \<and> balance_nodes scenario_df (scenario_cfg 2 4) =
     Finished (Inl ZeroDivisionError)
       \<lparr>df_after =
          \<lparr>run_1_accession = [''A'', ''B'', ''C'', ''D''],
           run_1_size = [Num (Fin (5 / 2)), Num (Fin 2), Num (Fin (3 / 2)), Num (Fin (1 / 2))],
           disk_req = Some [50, 40, 30, 10]\<rparr>,
        group_files = [], sra_queue = Some [], submit_json = None\<rparr>"
  by (simp add: zero_nodes_run py_floordiv_def)

text \<open>
  The amended C4 at \<^verbatim>\<open>cpu_per_node = 0\<close>, at the node count 0 with four rows and at the
  node count 0 with the empty frame.
\<close>

theorem node_budget_check_witness:
  "balance_nodes scenario_df (scenario_cfg 8 0)
     = Finished (Inl ZeroDivisionError) (untouched scenario_df)
   \<and> py_floordiv 2 4 = Inr \<lfloor>real_of_int 2 / real_of_int 4\<rfloor>
   \<and> (\<exists>fx. balance_nodes scenario_df (scenario_cfg 2 4) = Finished (Inl ZeroDivisionError) fx
          \<and> sra_queue fx = Some []
          \<and> (\<exists>sizes. run_1_size (df_after fx) = map (\<lambda>x. Num (Fin x)) sizes))
   \<and> balance_nodes \<lparr>run_1_accession = [], run_1_size = [], disk_req = None\<rparr> (scenario_cfg 2 4)
       = Finished (Inl ZeroDivisionError)
           (untouched (assigned \<lparr>run_1_accession = [], run_1_size = [], disk_req = None\<rparr> []))"
proof -
  let ?none = "\<lparr>run_1_accession = [], run_1_size = [], disk_req = None\<rparr>"
  have a: "cpu_per_node (scenario_cfg 8 0) = 0" by simp
  have b: "cpu_per_node (scenario_cfg 2 4) \<noteq> 0" by simp
  from node_budget_check [of "scenario_cfg 8 0" scenario_df] a
  have r1: "balance_nodes scenario_df (scenario_cfg 8 0)
             = Finished (Inl ZeroDivisionError) (untouched scenario_df)"
    by blast
  from node_budget_check [of "scenario_cfg 2 4" scenario_df] b
  have r2: "py_floordiv (max_cpu_request (scenario_cfg 2 4)) (cpu_per_node (scenario_cfg 2 4))
          = Inr \<lfloor>real_of_int (max_cpu_request (scenario_cfg 2 4))
                  / real_of_int (cpu_per_node (scenario_cfg 2 4))\<rfloor>"
    and r3: "\<forall>fx. balance_nodes scenario_df (scenario_cfg 2 4)
                  = Finished (Inl ZeroDivisionError) fx \<longrightarrow>
               (run_1_size scenario_df = []
                  \<and> max_cpu_request (scenario_cfg 2 4) div cpu_per_node (scenario_cfg 2 4) = 0
                  \<and> fx = untouched (assigned scenario_df []))
               \<or> (sra_queue fx = Some []
                  \<and> (\<exists>sizes. run_1_size (df_after fx) = map (\<lambda>x. Num (Fin x)) sizes))"
    by blast+
  from r2 have r2': "py_floordiv 2 4 = Inr \<lfloor>real_of_int 2 / real_of_int 4\<rfloor>" by simp
  have ne: "run_1_size scenario_df \<noteq> []" by simp
  from r3 zero_nodes_run ne have r3':
    "\<exists>fx. balance_nodes scenario_df (scenario_cfg 2 4) = Finished (Inl ZeroDivisionError) fx
          \<and> sra_queue fx = Some []
          \<and> (\<exists>sizes. run_1_size (df_after fx) = map (\<lambda>x. Num (Fin x)) sizes)"
    by blast
  have c: "run_1_size ?none = []
           \<and> max_cpu_request (scenario_cfg 2 4) div cpu_per_node (scenario_cfg 2 4) = 0"
    by simp
  from node_budget_check [of "scenario_cfg 2 4" ?none] b c
  have r4: "balance_nodes ?none (scenario_cfg 2 4)
       = Finished (Inl ZeroDivisionError) (untouched (assigned ?none []))"
    by blast
  from r1 r2' r3' r4 show ?thesis by blast
qed

text \<open>
  C7 on a run with ten nodes that closes four groups: the CPU request is doubled to 8.
\<close>

theorem cpu_reallocation_rule_witness:
  "\<exists>cfg' fx groups.
      balance_nodes six_df (scenario_cfg 40 4) = Finished (Inr cfg') fx
      \<and> sra_queue fx = Some groups \<and> length groups = 4 \<and> cpu_per_node cfg' = 8
      \<and> (cpu_per_node cfg' = 2 * 4 \<longleftrightarrow> 2 \<le> (40 div 4) div int (length groups))"
proof -
  note run = six_run
  from cpu_reallocation_rule [of six_df "scenario_cfg 40 4"] run
  obtain groups where
    g: "sra_queue \<lparr>df_after =
        \<lparr>run_1_accession = [''A'', ''B'', ''C'', ''D'', ''E'', ''F''],
         run_1_size =
           [Num (Fin 50000006), Num (Fin 50000005), Num (Fin 50000004),
            Num (Fin 50000003), Num (Fin 50000002), Num (Fin 50000001)],
         disk_req =
           Some [1000000120, 1000000100, 1000000080, 1000000060, 1000000040,
                 1000000020]\<rparr>,
      group_files =
        [(''sras_to_process/SRA_set_1'', [''A'']),
         (''sras_to_process/SRA_set_2'', [''B'']),
         (''sras_to_process/SRA_set_3'', [''C'']),
         (''sras_to_process/SRA_set_4'', [''D''])],
      sra_queue =
        Some [''sras_to_process/SRA_set_1'', ''sras_to_process/SRA_set_2'',
              ''sras_to_process/SRA_set_3'', ''sras_to_process/SRA_set_4''],
      submit_json =
        Some \<lparr>max_cpu_request = 40, cpu_per_node = 8,
              disk_request = Some (Fin 1600000042)\<rparr>\<rparr> = Some groups"
    and c: "cpu_per_node \<lparr>max_cpu_request = 40, cpu_per_node = 8,
               disk_request = Some (Fin 1600000042)\<rparr> =
             (if 2 \<le> (max_cpu_request (scenario_cfg 40 4) div cpu_per_node (scenario_cfg 40 4))
                      div int (length groups)
              then 2 * cpu_per_node (scenario_cfg 40 4) else cpu_per_node (scenario_cfg 40 4))"
    by blast
  from g have len: "length groups = 4" by auto
  from g c len run show ?thesis
    by (intro exI[of _ "\<lparr>max_cpu_request = 40, cpu_per_node = 8,
               disk_request = Some (Fin 1600000042)\<rparr>"] exI[of _ groups]) auto
qed




end
